theory Spec2Isabelle
  imports Main "HOL-Library.Sublist"
begin

section \<open>Values of the program\<close>

text \<open>
  The program of \<^verbatim>\<open>app/main.py\<close> handles parsed JSON throughout: the bodies of the
  ClickUp responses, the task records it builds from them, and the document it
  keeps in \<^verbatim>\<open>clickup_data.json\<close>. A parsed JSON value is \<open>None\<close>, a \<open>bool\<close>, a number,
  a \<open>str\<close>, a \<open>list\<close> or a \<open>dict\<close> with \<open>str\<close> keys. A \<open>dict\<close> is an association list in
  insertion order; a lookup takes the first binding of a key, and a \<open>dict\<close> of Python
  has no second one. Numbers are integers here: no function of the program
  computes with a number, and fractional numbers are left out of the model.
  A \<open>str\<close> is a \<open>string\<close>: the bytes of its UTF-8 encoding, so that a character
  beyond ASCII takes two to four \<open>char\<close>s.
\<close>

datatype json =
    JNull
  | JBool bool
  | JInt int
  | JStr string
  | JList "json list"
  | JDict "(string \<times> json) list"

text \<open>
  The exceptions the program can meet. \<open>RequestException\<close> is the class of
  \<^verbatim>\<open>requests.exceptions\<close> that \<^verbatim>\<open>_make_request\<close> catches, \<open>HTTPException\<close> the one of
  FastAPI that it raises (status code and detail); the others are Python's own.
  \<open>OtherException\<close> stands for any further exception a library call raises; all of
  them are subclasses of \<open>Exception\<close>.
\<close>

datatype error =
    AttributeError
  | KeyError string
  | TypeError
  | OSError
  | JSONDecodeError
  | RequestException string
  | HTTPException nat string
  | OtherException string

subsection \<open>The operations of Python the program applies to a value\<close>

text \<open>\<^verbatim>\<open>x.get(key, default)\<close>: only a \<open>dict\<close> has the method.\<close>

fun py_get :: "json \<Rightarrow> string \<Rightarrow> json \<Rightarrow> error + json" where
  "py_get (JDict kvs) key dflt = Inr (case map_of kvs key of None \<Rightarrow> dflt | Some v \<Rightarrow> v)"
| "py_get _ key dflt = Inl AttributeError"

text \<open>
  \<^verbatim>\<open>x[key]\<close> with a \<open>str\<close> key: a \<open>dict\<close> without the key raises \<open>KeyError\<close>; a \<open>list\<close> or a
  \<open>str\<close> wants an integer index, and the other values have no subscript at all.
\<close>

fun py_item :: "json \<Rightarrow> string \<Rightarrow> error + json" where
  "py_item (JDict kvs) key = (case map_of kvs key of None \<Rightarrow> Inl (KeyError key) | Some v \<Rightarrow> Inr v)"
| "py_item _ key = Inl TypeError"

text \<open>
  The characters of a \<open>str\<close>: in UTF-8 a character is a first byte and the
  continuation bytes (\<open>0x80\<close> to \<open>0xBF\<close>) that follow it.
\<close>

definition is_continuation :: "char \<Rightarrow> bool" where
  "is_continuation c = (128 \<le> (of_char c :: nat) \<and> (of_char c :: nat) < 192)"

function characters :: "string \<Rightarrow> string list" where
  "characters [] = []"
| "characters (c # cs) =
     (c # takeWhile is_continuation cs) # characters (dropWhile is_continuation cs)"
  by pat_completeness auto
termination
  by (relation "measure length") (auto simp: length_dropWhile_le less_Suc_eq_le)

text \<open>
  \<^verbatim>\<open>for x in v\<close>: a \<open>list\<close> gives its elements, a \<open>dict\<close> its keys, a \<open>str\<close> its
  characters; nothing else can be iterated.
\<close>

fun py_iter :: "json \<Rightarrow> error + json list" where
  "py_iter (JList xs) = Inr xs"
| "py_iter (JDict kvs) = Inr (map (\<lambda>kv. JStr (fst kv)) kvs)"
| "py_iter (JStr s) = Inr (map JStr (characters s))"
| "py_iter _ = Inl TypeError"

text \<open>\<^verbatim>\<open>isinstance(v, dict)\<close>.\<close>

fun isinstance_dict :: "json \<Rightarrow> bool" where
  "isinstance_dict (JDict kvs) = True"
| "isinstance_dict _ = False"

text \<open>The truth value of a value, and \<^verbatim>\<open>a or b\<close> on values.\<close>

fun truthy :: "json \<Rightarrow> bool" where
  "truthy JNull = False"
| "truthy (JBool b) = b"
| "truthy (JInt n) = (n \<noteq> 0)"
| "truthy (JStr s) = (s \<noteq> [])"
| "truthy (JList xs) = (xs \<noteq> [])"
| "truthy (JDict kvs) = (kvs \<noteq> [])"

definition py_or :: "json \<Rightarrow> json \<Rightarrow> json" where
  "py_or a b = (if truthy a then a else b)"

text \<open>Sequencing of steps that can raise: the first exception ends the evaluation.\<close>

definition on_value :: "error + 'a \<Rightarrow> ('a \<Rightarrow> error + 'b) \<Rightarrow> error + 'b" where
  "on_value r f = (case r of Inl e \<Rightarrow> Inl e | Inr a \<Rightarrow> f a)"

section \<open>Normalising a task\<close>

text \<open>
  The dictionary \<^verbatim>\<open>task_data\<close> that \<^verbatim>\<open>fetch_clickup_tasks\<close> builds for one task of a
  list (lines 87 to 100). The entries are evaluated in the order they are written,
  so the first one that raises decides the exception. The names of the list, the
  folder and the space come from the enclosing loops.
\<close>

definition task_status :: "json \<Rightarrow> error + json" where
  "task_status task =
     on_value (py_get task ''status'' (JDict []))
       (\<lambda>st. py_get st ''status'' (JStr ''Unknown''))"

definition task_priority :: "json \<Rightarrow> error + json" where
  "task_priority task =
     on_value (py_get task ''priority'' (JDict []))
       (\<lambda>p. if isinstance_dict p
             then on_value (py_get task ''priority'' (JDict []))
                    (\<lambda>p'. py_get p' ''priority'' (JStr ''Not set''))
             else Inr (JStr ''Not set''))"

definition task_data :: "json \<Rightarrow> json \<Rightarrow> json \<Rightarrow> json \<Rightarrow> error + json" where
  "task_data space_name folder_name list_name task =
     on_value (py_get task ''name'' (JStr [])) (\<lambda>title.
     on_value (py_get task ''description'' (JStr [])) (\<lambda>description.
     on_value (task_status task) (\<lambda>status.
     on_value (task_priority task) (\<lambda>priority.
     on_value (py_get task ''due_date'' (JStr ''None'')) (\<lambda>due_date.
     on_value (py_get task ''date_created'' (JStr ''None'')) (\<lambda>created_date.
     on_value (py_get task ''assignees'' (JList [])) (\<lambda>assigned_to.
     on_value (py_item task ''id'') (\<lambda>task_id.
     on_value (py_get task ''url'' (JStr [])) (\<lambda>url.
       Inr (JDict
         [(''title'', title),
          (''description'', description),
          (''status'', status),
          (''priority'', priority),
          (''due_date'', due_date),
          (''created_date'', created_date),
          (''assigned_to'', assigned_to),
          (''task_id'', task_id),
          (''list_name'', list_name),
          (''folder_name'', folder_name),
          (''space_name'', space_name),
          (''url'', url)]))))))))))"

section \<open>The world of the program\<close>

text \<open>
  What the program acts on: the ClickUp service and the Ollama model behind it
  (\<open>remote\<close>, of a type the model leaves open), the file \<^verbatim>\<open>clickup_data.json\<close>, and the
  logger. Every \<open>GET\<close> request and every chat call is recorded with its result, in the
  order made, so that a statement can tell which calls a run has made.
\<close>

datatype level = INFO | ERROR

datatype stored_file = Absent | Inaccessible | Contents string

record chat_request =
  model :: string
  messages :: "(string \<times> string) list"

record 'r world =
  remote :: 'r
  requests :: "(string \<times> (error + json)) list"
  chats :: "chat_request list"
  logged :: "(level \<times> string) list"
  document :: stored_file

text \<open>
  The libraries the program calls are parameters of the model:
  \<^item> \<open>http_get\<close>: \<^verbatim>\<open>requests.get\<close> with the two headers, \<^verbatim>\<open>raise_for_status\<close> and
    \<^verbatim>\<open>response.json()\<close>, as one step from the URL to the parsed body or the exception;
  \<^item> \<open>ollama_chat\<close>: \<^verbatim>\<open>ollama.chat\<close>, whose response is a mapping;
  \<^item> \<open>json_dump\<close> (with its \<open>indent\<close>) and \<open>json_load\<close>: the text of a value and back;
  \<^item> \<open>str_of\<close>: \<^verbatim>\<open>str\<close> of a value that is not a \<open>str\<close>, as an f-string formats it;
  \<^item> \<open>exc_str\<close>: \<^verbatim>\<open>str(e)\<close> of an exception;
  \<^item> \<open>str_lower\<close>: \<^verbatim>\<open>str.lower\<close>, the lowercase form of a text under the rules of
    Unicode, which look at the neighbours of a letter and can change the length.
\<close>

record 'r env =
  http_get :: "'r \<Rightarrow> string \<Rightarrow> (error + json) \<times> 'r"
  ollama_chat :: "'r \<Rightarrow> chat_request \<Rightarrow> (error + (string \<times> json) list) \<times> 'r"
  json_dump :: "json \<Rightarrow> nat \<Rightarrow> string"
  json_load :: "string \<Rightarrow> error + json"
  str_of :: "json \<Rightarrow> string"
  exc_str :: "error \<Rightarrow> string"
  str_lower :: "string \<Rightarrow> string"

text \<open>A step of the program: from a world to a value or an exception, and the world after.\<close>

type_synonym ('a, 'r) prog = "'r world \<Rightarrow> (error + 'a) \<times> 'r world"

definition returns :: "'a \<Rightarrow> ('a, 'r) prog" where
  "returns a = (\<lambda>w. (Inr a, w))"

definition raises :: "error \<Rightarrow> ('a, 'r) prog" where
  "raises e = (\<lambda>w. (Inl e, w))"

definition lift :: "error + 'a \<Rightarrow> ('a, 'r) prog" where
  "lift r = (\<lambda>w. (r, w))"

definition and_then :: "('a, 'r) prog \<Rightarrow> ('a \<Rightarrow> ('b, 'r) prog) \<Rightarrow> ('b, 'r) prog" where
  "and_then m f = (\<lambda>w. case m w of (Inl e, w') \<Rightarrow> (Inl e, w') | (Inr a, w') \<Rightarrow> f a w')"

text \<open>\<^verbatim>\<open>try: m except Exception as e: h(e)\<close>.\<close>

definition try_except :: "('a, 'r) prog \<Rightarrow> (error \<Rightarrow> ('a, 'r) prog) \<Rightarrow> ('a, 'r) prog" where
  "try_except m h = (\<lambda>w. case m w of (Inl e, w') \<Rightarrow> h e w' | (Inr a, w') \<Rightarrow> (Inr a, w'))"

text \<open>
  A \<^verbatim>\<open>for\<close> loop over the items of a list whose body updates one local variable
  (here the list \<open>documents\<close>); an exception in the body leaves the loop.
\<close>

primrec for_each :: "'a list \<Rightarrow> ('a \<Rightarrow> 'b \<Rightarrow> ('b, 'r) prog) \<Rightarrow> 'b \<Rightarrow> ('b, 'r) prog" where
  "for_each [] body acc = returns acc"
| "for_each (x # xs) body acc = and_then (body x acc) (for_each xs body)"

definition log_line :: "level \<Rightarrow> string \<Rightarrow> (unit, 'r) prog" where
  "log_line lv msg = (\<lambda>w. (Inr (), w\<lparr>logged := logged w @ [(lv, msg)]\<rparr>))"

text \<open>The text an f-string puts in for a value.\<close>

definition py_format :: "'r env \<Rightarrow> json \<Rightarrow> string" where
  "py_format env v = (case v of JStr s \<Rightarrow> s | _ \<Rightarrow> str_of env v)"

section \<open>The requests to ClickUp\<close>

fun is_request_exception :: "error \<Rightarrow> bool" where
  "is_request_exception (RequestException msg) = True"
| "is_request_exception _ = False"

text \<open>
  \<^verbatim>\<open>_make_request\<close> (lines 27 to 40): one \<open>GET\<close>; a \<open>RequestException\<close> is logged and
  raised again as an \<open>HTTPException\<close> with status 500, any other exception passes.
\<close>

definition call_http :: "'r env \<Rightarrow> string \<Rightarrow> (json, 'r) prog" where
  "call_http env url = (\<lambda>w.
     case http_get env (remote w) url of
       (res, r') \<Rightarrow> (res, w\<lparr>remote := r', requests := requests w @ [(url, res)]\<rparr>))"

definition make_request :: "'r env \<Rightarrow> string \<Rightarrow> (json, 'r) prog" where
  "make_request env endpoint =
     (let url = ''https://api.clickup.com/api/v2/'' @ endpoint in
      try_except
        (and_then (log_line INFO (''Requesting: '' @ url)) (\<lambda>_. call_http env url))
        (\<lambda>e. if is_request_exception e
              then and_then (log_line ERROR (''Error calling '' @ url @ '': '' @ exc_str env e))
                     (\<lambda>_. raises (HTTPException 500 (''ClickUp API error: '' @ exc_str env e)))
              else raises e))"

section \<open>The walk over spaces, folders, lists and tasks\<close>

text \<open>
  \<^verbatim>\<open>fetch_clickup_tasks\<close> (lines 63 to 105), from the innermost loop outwards. Each
  definition is the body of one \<^verbatim>\<open>for\<close> loop, with \<open>documents\<close> as the list built so
  far.
\<close>

definition task_body :: "json \<Rightarrow> json \<Rightarrow> json \<Rightarrow> json \<Rightarrow> json list \<Rightarrow> (json list, 'r) prog" where
  "task_body space_name folder_name list_name task documents =
     and_then (lift (task_data space_name folder_name list_name task))
       (\<lambda>d. returns (documents @ [d]))"

definition list_body :: "'r env \<Rightarrow> json \<Rightarrow> json \<Rightarrow> json \<Rightarrow> json list \<Rightarrow> (json list, 'r) prog" where
  "list_body env space_name folder_name list_obj documents =
     and_then (lift (py_item list_obj ''id'')) (\<lambda>list_id.
     and_then (lift (py_item list_obj ''name'')) (\<lambda>list_name.
     and_then (make_request env (''list/'' @ py_format env list_id @ ''/task'')) (\<lambda>tasks.
     and_then (lift (py_get tasks ''tasks'' (JList []))) (\<lambda>ts.
     and_then (lift (py_iter ts)) (\<lambda>items.
       for_each items (task_body space_name folder_name list_name) documents)))))"

definition folder_body :: "'r env \<Rightarrow> json \<Rightarrow> json \<Rightarrow> json list \<Rightarrow> (json list, 'r) prog" where
  "folder_body env space_name folder documents =
     and_then (lift (py_item folder ''id'')) (\<lambda>folder_id.
     and_then (lift (py_item folder ''name'')) (\<lambda>folder_name.
     and_then (make_request env (''folder/'' @ py_format env folder_id @ ''/list'')) (\<lambda>lists.
     and_then (lift (py_get lists ''lists'' (JList []))) (\<lambda>ls.
     and_then (lift (py_iter ls)) (\<lambda>items.
       for_each items (list_body env space_name folder_name) documents)))))"

definition space_body :: "'r env \<Rightarrow> json \<Rightarrow> json list \<Rightarrow> (json list, 'r) prog" where
  "space_body env space documents =
     and_then (lift (py_item space ''id'')) (\<lambda>space_id.
     and_then (lift (py_item space ''name'')) (\<lambda>space_name.
     and_then (make_request env (''space/'' @ py_format env space_id @ ''/folder'')) (\<lambda>folders.
     and_then (lift (py_get folders ''folders'' (JList []))) (\<lambda>fs.
     and_then (lift (py_iter fs)) (\<lambda>items.
       for_each items (folder_body env space_name) documents)))))"

definition fetch_clickup_tasks :: "'r env \<Rightarrow> (json list, 'r) prog" where
  "fetch_clickup_tasks env =
     try_except
       (and_then (make_request env ''team/3342101/space'') (\<lambda>spaces.
        and_then (lift (py_get spaces ''spaces'' (JList []))) (\<lambda>ss.
        and_then (lift (py_iter ss)) (\<lambda>items.
          for_each items (space_body env) []))))
       (\<lambda>e. and_then (log_line ERROR (''Error fetching ClickUp data: '' @ exc_str env e))
              (\<lambda>_. raises e))"

section \<open>The record store\<close>

text \<open>
  \<^verbatim>\<open>open(JSON_FILE_PATH, 'w')\<close> followed by the write of a text: a file that cannot be
  opened raises \<open>OSError\<close> and stays as it is.
\<close>

definition write_document :: "string \<Rightarrow> (unit, 'r) prog" where
  "write_document text = (\<lambda>w.
     case document w of
       Inaccessible \<Rightarrow> (Inl OSError, w)
     | _ \<Rightarrow> (Inr (), w\<lparr>document := Contents text\<rparr>))"

text \<open>\<^verbatim>\<open>save_to_json\<close> (lines 42 to 49).\<close>

definition save_to_json :: "'r env \<Rightarrow> json list \<Rightarrow> (unit, 'r) prog" where
  "save_to_json env documents =
     try_except
       (write_document (json_dump env (JDict [(''tasks'', JList documents)]) 2))
       (\<lambda>e. and_then (log_line ERROR (''Error saving to JSON: '' @ exc_str env e))
              (\<lambda>_. raises e))"

text \<open>
  \<^verbatim>\<open>load_from_json\<close> (lines 51 to 61). \<^verbatim>\<open>os.path.exists\<close> is false for an absent file
  only; \<^verbatim>\<open>open(JSON_FILE_PATH, 'r')\<close> raises \<open>OSError\<close> on a file it cannot read.
\<close>

definition read_document :: "(string, 'r) prog" where
  "read_document = (\<lambda>w.
     case document w of
       Contents text \<Rightarrow> (Inr text, w)
     | _ \<Rightarrow> (Inl OSError, w))"

definition load_from_json :: "'r env \<Rightarrow> (json, 'r) prog" where
  "load_from_json env =
     try_except
       (\<lambda>w. if document w = Absent then returns (JList []) w
            else and_then read_document (\<lambda>text.
                 and_then (lift (json_load env text)) (\<lambda>data.
                   lift (py_get data ''tasks'' (JList [])))) w)
       (\<lambda>e. and_then (log_line ERROR (''Error loading from JSON: '' @ exc_str env e))
              (\<lambda>_. returns (JList [])))"

section \<open>The two endpoints\<close>

text \<open>\<^verbatim>\<open>ingest\<close> (lines 107 to 114).\<close>

definition ingest :: "'r env \<Rightarrow> (json, 'r) prog" where
  "ingest env =
     try_except
       (and_then (fetch_clickup_tasks env) (\<lambda>tasks.
        and_then (save_to_json env tasks) (\<lambda>_.
          returns (JDict [(''message'', JStr ''Data ingested successfully'')]))))
       (\<lambda>e. raises (HTTPException 500 (exc_str env e)))"

section \<open>Answering a query\<close>

text \<open>
  \<^verbatim>\<open>s.lower()\<close>: the empty string has nothing to lower, any other text is lowered by
  the library. Only a \<open>str\<close> has the method.
\<close>

definition lower :: "'r env \<Rightarrow> string \<Rightarrow> string" where
  "lower env s = (if s = [] then [] else str_lower env s)"

fun py_lower :: "'r env \<Rightarrow> json \<Rightarrow> error + string" where
  "py_lower env (JStr s) = Inr (lower env s)"
| "py_lower env _ = Inl AttributeError"

text \<open>\<^verbatim>\<open>q in s\<close> on two \<open>str\<close>: \<open>q\<close> starts at some position of \<open>s\<close>.\<close>

fun starts_with :: "string \<Rightarrow> string \<Rightarrow> bool" where
  "starts_with s [] = True"
| "starts_with [] (c # q) = False"
| "starts_with (d # s) (c # q) = (d = c \<and> starts_with s q)"

fun str_in :: "string \<Rightarrow> string \<Rightarrow> bool" where
  "str_in q [] = (q = [])"
| "str_in q (c # s) = (starts_with (c # s) q \<or> str_in q s)"

text \<open>\<^verbatim>\<open>sep.join(xs)\<close>.\<close>

fun py_join :: "string \<Rightarrow> string list \<Rightarrow> string" where
  "py_join sep [] = []"
| "py_join sep [x] = x"
| "py_join sep (x # y # ys) = x @ sep @ py_join sep (y # ys)"

text \<open>
  Lines 125 to 129: the test that decides whether a task goes into the answer.
  \<open>or\<close> evaluates its second operand only when the first is false.
\<close>

definition task_matches :: "'r env \<Rightarrow> string \<Rightarrow> json \<Rightarrow> error + bool" where
  "task_matches env query task =
     on_value (py_get task ''title'' (JStr [])) (\<lambda>t.
     on_value (py_get task ''description'' (JStr [])) (\<lambda>d.
     on_value (py_lower env (py_or t (JStr []))) (\<lambda>title_lower.
       if str_in query title_lower then Inr True
       else on_value (py_lower env (py_or d (JStr []))) (\<lambda>description_lower.
              Inr (str_in query description_lower)))))"

text \<open>Lines 130 to 138: the text of one matching task.\<close>

definition line_start :: string where
  "line_start = CHR 0x0A # replicate 12 (CHR '' '')"

definition task_text :: "'r env \<Rightarrow> json \<Rightarrow> error + string" where
  "task_text env task =
     on_value (py_item task ''title'') (\<lambda>title.
     on_value (py_item task ''description'') (\<lambda>description.
     on_value (py_item task ''status'') (\<lambda>status.
     on_value (py_item task ''priority'') (\<lambda>priority.
     on_value (py_item task ''due_date'') (\<lambda>due_date.
     on_value (py_item task ''created_date'') (\<lambda>created_date.
     on_value (py_item task ''assigned_to'') (\<lambda>assigned_to.
       Inr (line_start @ ''Title: '' @ py_format env (py_or title (JStr ''No title''))
          @ line_start @ ''Description: ''
          @ py_format env (py_or description (JStr ''No description''))
          @ line_start @ ''Status: '' @ py_format env (py_or status (JStr ''Unknown''))
          @ line_start @ ''Priority: '' @ py_format env (py_or priority (JStr ''Not set''))
          @ line_start @ ''Due Date: '' @ py_format env (py_or due_date (JStr ''None''))
          @ line_start @ ''Created Date: ''
          @ py_format env (py_or created_date (JStr ''None''))
          @ line_start @ ''Assigned To: ''
          @ py_format env (py_or assigned_to (JStr ''None''))
          @ line_start))))))))"

definition query_body :: "'r env \<Rightarrow> string \<Rightarrow> json \<Rightarrow> string list \<Rightarrow> (string list, 'r) prog" where
  "query_body env query task relevant_texts =
     and_then (lift (task_matches env query task)) (\<lambda>hit.
       if hit
       then and_then (lift (task_text env task)) (\<lambda>text. returns (relevant_texts @ [text]))
       else returns relevant_texts)"

definition call_ollama :: "'r env \<Rightarrow> chat_request \<Rightarrow> ((string \<times> json) list, 'r) prog" where
  "call_ollama env req = (\<lambda>w.
     case ollama_chat env (remote w) req of
       (res, r') \<Rightarrow> (res, w\<lparr>remote := r', chats := chats w @ [req]\<rparr>))"

definition no_match_response :: json where
  "no_match_response = JDict [(''response'', JStr ''No matching tasks found.'')]"

definition chat_of :: "string list \<Rightarrow> chat_request" where
  "chat_of relevant_texts =
     (let formatted_tasks = py_join [CHR 0x0A, CHR 0x0A] relevant_texts in
      \<lparr>model = ''deepseek-r1:14b'',
       messages =
         [(''system'',
           ''You are an AI assistant that retrieves tasks assigned to a user from ClickUp data.''),
          (''user'', py_join [CHR 0x0A] (characters formatted_tasks))]\<rparr>)"

text \<open>\<^verbatim>\<open>query_knowledge\<close> (lines 116 to 151), on the text of the request.\<close>

definition query_knowledge :: "'r env \<Rightarrow> string \<Rightarrow> (json, 'r) prog" where
  "query_knowledge env req_query =
     and_then (load_from_json env) (\<lambda>tasks.
     and_then (lift (py_iter tasks)) (\<lambda>items.
     and_then (for_each items (query_body env (lower env req_query)) []) (\<lambda>relevant_texts.
       if relevant_texts = [] then returns no_match_response
       else and_then (call_ollama env (chat_of relevant_texts))
              (\<lambda>response. returns (JDict [(''response'', JDict response)])))))"

section \<open>Notions of the specification\<close>

text \<open>
  The twelve fields of a task record, and a value that is a \<open>dict\<close> of exactly these
  fields.
\<close>

definition field_names :: "string list" where
  "field_names =
     [''title'', ''description'', ''status'', ''priority'', ''due_date'', ''created_date'',
      ''assigned_to'', ''task_id'', ''list_name'', ''folder_name'', ''space_name'', ''url'']"

fun has_all_fields :: "json \<Rightarrow> bool" where
  "has_all_fields (JDict kvs) = (map fst kvs = field_names)"
| "has_all_fields _ = False"

text \<open>
  The title and the description of a stored record are strings that may be null
  or missing (section 3 of the specification). \<open>nullable_text_field t k\<close> says so of
  the field \<open>k\<close> of the \<open>dict\<close> \<open>t\<close>; \<open>field_text t k\<close> is the text of the field, with the
  empty string for null and for a missing field.
\<close>

fun text_or_null :: "json \<Rightarrow> bool" where
  "text_or_null JNull = True"
| "text_or_null (JStr s) = True"
| "text_or_null _ = False"

definition nullable_text_field :: "json \<Rightarrow> string \<Rightarrow> bool" where
  "nullable_text_field t k =
     (case py_get t k JNull of Inr v \<Rightarrow> text_or_null v | Inl e \<Rightarrow> False)"

definition field_text :: "json \<Rightarrow> string \<Rightarrow> string" where
  "field_text t k = (case py_get t k JNull of Inr (JStr s) \<Rightarrow> s | _ \<Rightarrow> [])"

text \<open>
  Matching as the specification words it: the query appears in a text, letter case
  aside, when some contiguous part of the text is the query up to letter case, that
  is, has the same lowercase form; a record matches when the query appears in its
  title or in its description. \<open>parts s\<close> lists the contiguous parts of \<open>s\<close>.
\<close>

definition parts :: "'a list \<Rightarrow> 'a list list" where
  "parts s = concat (map prefixes (suffixes s))"

definition occurs_ignoring_case :: "'r env \<Rightarrow> string \<Rightarrow> string \<Rightarrow> bool" where
  "occurs_ignoring_case env q s = list_ex (\<lambda>u. lower env u = lower env q) (parts s)"

definition matches_spec :: "'r env \<Rightarrow> string \<Rightarrow> json \<Rightarrow> bool" where
  "matches_spec env q t =
     (occurs_ignoring_case env q (field_text t ''title'') \<or>
      occurs_ignoring_case env q (field_text t ''description''))"

text \<open>
  The narrower matching: the lowercase form of the query is a contiguous part of the
  lowercase form of the title or of the description.
\<close>

definition matches_lowered :: "'r env \<Rightarrow> string \<Rightarrow> json \<Rightarrow> bool" where
  "matches_lowered env q t =
     (sublist (lower env q) (lower env (field_text t ''title'')) \<or>
      sublist (lower env q) (lower env (field_text t ''description'')))"

text \<open>The requests a run from \<open>w\<close> to \<open>w'\<close> has made, with their results.\<close>

definition requests_made :: "'r world \<Rightarrow> 'r world \<Rightarrow> (string \<times> (error + json)) list" where
  "requests_made w w' = drop (length (requests w)) (requests w')"

section \<open>Notions of the proofs\<close>

text \<open>
  A step is \<open>fail_fast\<close> when it only adds requests to the record, never touches the
  stored file or the chats, and returns a value only if every request it has made
  has succeeded. A handler \<open>reraises\<close> when it always ends in an exception and makes
  no request.
\<close>

definition run_ok :: "'r world \<Rightarrow> (error + 'a) \<times> 'r world \<Rightarrow> bool" where
  "run_ok w res =
     (document (snd res) = document w \<and> chats (snd res) = chats w \<and>
      (\<exists>new. requests (snd res) = requests w @ new \<and>
             (isl (fst res) \<or> list_all (\<lambda>x. \<not> isl (snd x)) new)))"

definition fail_fast :: "('a, 'r) prog \<Rightarrow> bool" where
  "fail_fast m = (\<forall>w. run_ok w (m w))"

definition reraises :: "('a, 'r) prog \<Rightarrow> bool" where
  "reraises h =
     (\<forall>w. isl (fst (h w)) \<and> requests (snd (h w)) = requests w \<and>
          document (snd (h w)) = document w \<and> chats (snd (h w)) = chats w)"

section \<open>A scenario\<close>

text \<open>
  The scenario of section 8 of the specification, on which the theorems below are
  tried: a workspace with the space \<open>Eng\<close>, the folder \<open>Backend\<close>, the list
  \<open>Sprint 1\<close> and two tasks. Task A has a name and nothing else; task B has a status
  object and the plain string \<open>high\<close> as its priority.
\<close>

definition task_A :: json where
  "task_A = JDict [(''id'', JStr ''t1''), (''name'', JStr ''Fix login'')]"

definition task_B :: json where
  "task_B = JDict
     [(''id'', JStr ''t2''), (''name'', JStr ''Add logging''),
      (''status'', JDict [(''status'', JStr ''In Progress'')]),
      (''priority'', JStr ''high'')]"

definition scenario_response :: "string \<Rightarrow> error + json" where
  "scenario_response url =
     (if url = ''https://api.clickup.com/api/v2/team/3342101/space''
      then Inr (JDict [(''spaces'', JList [JDict [(''id'', JStr ''s1''), (''name'', JStr ''Eng'')]])])
      else if url = ''https://api.clickup.com/api/v2/space/s1/folder''
      then Inr (JDict
                 [(''folders'', JList [JDict [(''id'', JStr ''f1''), (''name'', JStr ''Backend'')]])])
      else if url = ''https://api.clickup.com/api/v2/folder/f1/list''
      then Inr (JDict
                 [(''lists'', JList [JDict [(''id'', JStr ''l1''), (''name'', JStr ''Sprint 1'')]])])
      else if url = ''https://api.clickup.com/api/v2/list/l1/task''
      then Inr (JDict [(''tasks'', JList [task_A, task_B])])
      else Inl (RequestException ''404 Client Error: Not Found''))"

definition scenario_reply :: "(string \<times> json) list" where
  "scenario_reply =
     [(''model'', JStr ''deepseek-r1:14b''),
      (''message'', JDict [(''role'', JStr ''assistant''), (''content'', JStr ''Two tasks.'')])]"

text \<open>The two records the walk makes of the tasks A and B.\<close>

definition record_A :: json where
  "record_A = JDict
     [(''title'', JStr ''Fix login''), (''description'', JStr []), (''status'', JStr ''Unknown''),
      (''priority'', JStr ''Not set''), (''due_date'', JStr ''None''),
      (''created_date'', JStr ''None''), (''assigned_to'', JList []), (''task_id'', JStr ''t1''),
      (''list_name'', JStr ''Sprint 1''), (''folder_name'', JStr ''Backend''),
      (''space_name'', JStr ''Eng''), (''url'', JStr [])]"

definition record_B :: json where
  "record_B = JDict
     [(''title'', JStr ''Add logging''), (''description'', JStr []),
      (''status'', JStr ''In Progress''), (''priority'', JStr ''Not set''),
      (''due_date'', JStr ''None''), (''created_date'', JStr ''None''),
      (''assigned_to'', JList []), (''task_id'', JStr ''t2''),
      (''list_name'', JStr ''Sprint 1''), (''folder_name'', JStr ''Backend''),
      (''space_name'', JStr ''Eng''), (''url'', JStr [])]"

subsection \<open>The libraries of the scenario\<close>

text \<open>
  The text of an integer in decimal digits; the first argument of \<open>digits\<close> bounds the
  number of digits.
\<close>

definition digit_char :: "nat \<Rightarrow> char" where
  "digit_char n = char_of (48 + n)"

fun digits :: "nat \<Rightarrow> nat \<Rightarrow> string" where
  "digits 0 n = []"
| "digits (Suc fuel) n =
     (if n < 10 then [digit_char n] else digits fuel (n div 10) @ [digit_char (n mod 10)])"

definition int_text :: "int \<Rightarrow> string" where
  "int_text n =
     (if n < 0 then CHR ''-'' # digits (Suc (nat (- n))) (nat (- n))
      else digits (Suc (nat n)) (nat n))"

text \<open>
  \<^verbatim>\<open>json.dump\<close> with an indent: the JSON text of a value, one item on each line. The
  quotation mark, the backslash and the newline of a string are escaped.
\<close>

definition escape_char :: "char \<Rightarrow> string" where
  "escape_char c =
     (if c = CHR 0x22 then [CHR 0x5C, CHR 0x22]
      else if c = CHR 0x5C then [CHR 0x5C, CHR 0x5C]
      else if c = CHR 0x0A then [CHR 0x5C, CHR ''n'']
      else [c])"

definition quote :: "string \<Rightarrow> string" where
  "quote s = CHR 0x22 # concat (map escape_char s) @ [CHR 0x22]"

definition pad :: "nat \<Rightarrow> nat \<Rightarrow> string" where
  "pad indent depth = CHR 0x0A # replicate (indent * depth) (CHR '' '')"

fun json_text :: "nat \<Rightarrow> nat \<Rightarrow> json \<Rightarrow> string" where
  "json_text i d JNull = ''null''"
| "json_text i d (JBool b) = (if b then ''true'' else ''false'')"
| "json_text i d (JInt n) = int_text n"
| "json_text i d (JStr s) = quote s"
| "json_text i d (JList xs) =
     (if xs = [] then ''[]''
      else ''['' @ pad i (Suc d) @ py_join ('','' @ pad i (Suc d)) (map (json_text i (Suc d)) xs)
           @ pad i d @ '']'')"
| "json_text i d (JDict kvs) =
     (if kvs = [] then ''{}''
      else ''{'' @ pad i (Suc d)
           @ py_join ('','' @ pad i (Suc d))
               (map (\<lambda>kv. quote (fst kv) @ '': '' @ json_text i (Suc d) (snd kv)) kvs)
           @ pad i d @ ''}'')"

text \<open>
  \<^verbatim>\<open>json.load\<close>: a reader of JSON text (null, the booleans, integers, strings with the
  escapes above, arrays and objects, with white space between the tokens). The
  reader takes a list as its fuel, one element for each nested call; the text itself
  is long enough.
\<close>

fun skip_ws :: "string \<Rightarrow> string" where
  "skip_ws [] = []"
| "skip_ws (c # cs) =
     (if c = CHR '' '' \<or> c = CHR 0x0A \<or> c = CHR 0x09 \<or> c = CHR 0x0D then skip_ws cs
      else c # cs)"

text \<open>The characters of a string after its opening quote, up to the closing one.\<close>

fun read_chars :: "string \<Rightarrow> string \<Rightarrow> (string \<times> string) option" where
  "read_chars acc [] = None"
| "read_chars acc [c] = (if c = CHR 0x22 then Some (rev acc, []) else None)"
| "read_chars acc (c # e # cs) =
     (if c = CHR 0x22 then Some (rev acc, e # cs)
      else if c = CHR 0x5C then
        (if e = CHR 0x22 \<or> e = CHR 0x5C then read_chars (e # acc) cs
         else if e = CHR ''n'' then read_chars (CHR 0x0A # acc) cs
         else None)
      else read_chars (c # acc) (e # cs))"

definition is_digit :: "char \<Rightarrow> bool" where
  "is_digit c = (48 \<le> (of_char c :: nat) \<and> (of_char c :: nat) \<le> 57)"

definition read_nat :: "string \<Rightarrow> (nat \<times> string) option" where
  "read_nat s =
     (let ds = takeWhile is_digit s in
      if ds = [] then None
      else Some (foldl (\<lambda>a c. 10 * a + (of_char c - 48)) 0 ds, dropWhile is_digit s))"

fun read_value :: "'f list \<Rightarrow> string \<Rightarrow> (json \<times> string) option"
  and read_items :: "'f list \<Rightarrow> json list \<Rightarrow> string \<Rightarrow> (json \<times> string) option"
  and read_members :: "'f list \<Rightarrow> (string \<times> json) list \<Rightarrow> string \<Rightarrow> (json \<times> string) option"
where
  "read_value [] s = None"
| "read_value (f # fuel) s =
     (case skip_ws s of
        [] \<Rightarrow> None
      | c # cs \<Rightarrow>
          if c = CHR 0x22 then map_option (\<lambda>p. (JStr (fst p), snd p)) (read_chars [] cs)
          else if c = CHR ''['' then
            (case skip_ws cs of
               [] \<Rightarrow> None
             | b # bs \<Rightarrow> if b = CHR '']'' then Some (JList [], bs) else read_items fuel [] cs)
          else if c = CHR ''{'' then
            (case skip_ws cs of
               [] \<Rightarrow> None
             | b # bs \<Rightarrow> if b = CHR ''}'' then Some (JDict [], bs) else read_members fuel [] cs)
          else if starts_with (c # cs) ''null'' then Some (JNull, drop 3 cs)
          else if starts_with (c # cs) ''true'' then Some (JBool True, drop 3 cs)
          else if starts_with (c # cs) ''false'' then Some (JBool False, drop 4 cs)
          else if c = CHR ''-'' then map_option (\<lambda>p. (JInt (- int (fst p)), snd p)) (read_nat cs)
          else map_option (\<lambda>p. (JInt (int (fst p)), snd p)) (read_nat (c # cs)))"
| "read_items [] acc s = None"
| "read_items (f # fuel) acc s =
     (case read_value fuel s of
        None \<Rightarrow> None
      | Some (v, r) \<Rightarrow>
          (case skip_ws r of
             [] \<Rightarrow> None
           | c # cs \<Rightarrow>
               if c = CHR '','' then read_items fuel (v # acc) cs
               else if c = CHR '']'' then Some (JList (rev (v # acc)), cs)
               else None))"
| "read_members [] acc s = None"
| "read_members (f # fuel) acc s =
     (case skip_ws s of
        [] \<Rightarrow> None
      | q # qs \<Rightarrow>
          if q \<noteq> CHR 0x22 then None
          else
            (case read_chars [] qs of
               None \<Rightarrow> None
             | Some (k, r) \<Rightarrow>
                 (case skip_ws r of
                    [] \<Rightarrow> None
                  | c # cs \<Rightarrow>
                      if c \<noteq> CHR '':'' then None
                      else
                        (case read_value fuel cs of
                           None \<Rightarrow> None
                         | Some (v, r') \<Rightarrow>
                             (case skip_ws r' of
                                [] \<Rightarrow> None
                              | d # ds \<Rightarrow>
                                  if d = CHR '','' then read_members fuel ((k, v) # acc) ds
                                  else if d = CHR ''}''
                                  then Some (JDict (rev ((k, v) # acc)), ds)
                                  else None)))))"

definition read_json :: "string \<Rightarrow> error + json" where
  "read_json s =
     (case read_value s s of
        None \<Rightarrow> Inl JSONDecodeError
      | Some (v, r) \<Rightarrow> if skip_ws r = [] then Inr v else Inl JSONDecodeError)"

text \<open>\<^verbatim>\<open>str\<close> of a value that is not a \<open>str\<close>: its \<^verbatim>\<open>repr\<close>.\<close>

definition repr_str :: "string \<Rightarrow> string" where
  "repr_str s =
     (let q = (if CHR 0x27 \<in> set s \<and> CHR 0x22 \<notin> set s then CHR 0x22 else CHR 0x27) in
      q # concat (map (\<lambda>c. if c = q \<or> c = CHR 0x5C then [CHR 0x5C, c]
                            else if c = CHR 0x0A then [CHR 0x5C, CHR ''n'']
                            else [c]) s) @ [q])"

fun py_repr :: "json \<Rightarrow> string" where
  "py_repr JNull = ''None''"
| "py_repr (JBool b) = (if b then ''True'' else ''False'')"
| "py_repr (JInt n) = int_text n"
| "py_repr (JStr s) = repr_str s"
| "py_repr (JList xs) = ''['' @ py_join '', '' (map py_repr xs) @ '']''"
| "py_repr (JDict kvs) =
     ''{'' @ py_join '', '' (map (\<lambda>kv. repr_str (fst kv) @ '': '' @ py_repr (snd kv)) kvs) @ ''}''"

text \<open>\<^verbatim>\<open>str(e)\<close> of the exceptions of the scenario.\<close>

fun scenario_exc_str :: "error \<Rightarrow> string" where
  "scenario_exc_str AttributeError = ''object has no attribute''"
| "scenario_exc_str (KeyError k) = repr_str k"
| "scenario_exc_str TypeError = ''object is not subscriptable''"
| "scenario_exc_str OSError = ''[Errno 13] Permission denied''"
| "scenario_exc_str JSONDecodeError = ''Expecting value''"
| "scenario_exc_str (RequestException msg) = msg"
| "scenario_exc_str (HTTPException code detail) = int_text (int code) @ '': '' @ detail"
| "scenario_exc_str (OtherException msg) = msg"

text \<open>
  \<^verbatim>\<open>str.lower\<close> on the texts of the scenario, which are made of ASCII and of the Greek
  capitals alpha to omega (\<open>U+0391\<close> to \<open>U+03A9\<close>, in UTF-8 the byte \<open>0xCE\<close> and a byte
  from \<open>0x91\<close> to \<open>0xA9\<close>). A capital becomes its small letter; the capital sigma
  (\<open>0xCE 0xA3\<close>) becomes the final small sigma (\<open>0xCF 0x82\<close>) after a letter when no letter
  follows, and the small sigma (\<open>0xCF 0x83\<close>) elsewhere. The flag says whether a
  letter stands before the text.
\<close>

definition is_ascii_upper :: "char \<Rightarrow> bool" where
  "is_ascii_upper c = (65 \<le> (of_char c :: nat) \<and> (of_char c :: nat) \<le> 90)"

definition is_ascii_lower :: "char \<Rightarrow> bool" where
  "is_ascii_lower c = (97 \<le> (of_char c :: nat) \<and> (of_char c :: nat) \<le> 122)"

fun letter_follows :: "string \<Rightarrow> bool" where
  "letter_follows [] = False"
| "letter_follows (c # cs) =
     (is_ascii_upper c \<or> is_ascii_lower c \<or> c = CHR 0xCE \<or> c = CHR 0xCF)"

fun scenario_lower :: "bool \<Rightarrow> string \<Rightarrow> string" where
  "scenario_lower after_letter [] = []"
| "scenario_lower after_letter [c] =
     (if is_ascii_upper c then [char_of ((of_char c :: nat) + 32)] else [c])"
| "scenario_lower after_letter (c # d # cs) =
     (if c = CHR 0xCE then
        (if d = CHR 0xA3 then
           (if after_letter \<and> \<not> letter_follows cs then [CHR 0xCF, CHR 0x82]
            else [CHR 0xCF, CHR 0x83]) @ scenario_lower True cs
         else if 145 \<le> (of_char d :: nat) \<and> (of_char d :: nat) \<le> 159
         then [CHR 0xCE, char_of ((of_char d :: nat) + 32)] @ scenario_lower True cs
         else if 160 \<le> (of_char d :: nat) \<and> (of_char d :: nat) \<le> 169
                 \<and> (of_char d :: nat) \<noteq> 162
         then [CHR 0xCF, char_of ((of_char d :: nat) - 32)] @ scenario_lower True cs
         else [c, d] @ scenario_lower True cs)
      else if c = CHR 0xCF then [c, d] @ scenario_lower True cs
      else if is_ascii_upper c
      then char_of ((of_char c :: nat) + 32) # scenario_lower True (d # cs)
      else c # scenario_lower (is_ascii_lower c) (d # cs))"




text \<open>
  The state of the services of the scenario is the number of requests ClickUp still
  answers: after that many, every request fails. The model always gives the same
  reply.
\<close>

definition scenario_env :: "nat env" where
  "scenario_env =
     \<lparr>http_get = (\<lambda>n url. if n = 0 then (Inl (RequestException ''503 Server Error''), 0)
                          else (scenario_response url, n - 1)),
      ollama_chat = (\<lambda>n req. (Inr scenario_reply, n)),
      json_dump = (\<lambda>v indent. json_text indent 0 v),
      json_load = read_json,
      str_of = py_repr,
      exc_str = scenario_exc_str,
      str_lower = scenario_lower False\<rparr>"

text \<open>A world with nothing recorded yet: \<open>n\<close> requests will be answered, the file is \<open>d\<close>.\<close>

definition start :: "nat \<Rightarrow> stored_file \<Rightarrow> nat world" where
  "start n d = \<lparr>remote = n, requests = [], chats = [], logged = [], document = d\<rparr>"

text \<open>The world after the records of the scenario have been stored.\<close>

definition stored :: "nat world" where
  "stored = start 0 (Contents (json_text 2 0 (JDict [(''tasks'', JList [record_A, record_B])])))"

section \<open>Lemmas on steps\<close>

lemma on_value_Inr: "on_value r f = Inr b \<longleftrightarrow> (\<exists>a. r = Inr a \<and> f a = Inr b)"
  by (cases r) (simp_all add: on_value_def)

lemma py_get_Inr: "py_get t k d = Inr v \<longleftrightarrow>
   (\<exists>kvs. t = JDict kvs \<and> v = (case map_of kvs k of None \<Rightarrow> d | Some x \<Rightarrow> x))"
  by (cases t) auto

lemma py_item_Inr: "py_item t k = Inr v \<longleftrightarrow> (\<exists>kvs. t = JDict kvs \<and> map_of kvs k = Some v)"
  by (cases t) (auto split: option.splits)

lemma and_then_Inr:
  "and_then m f w = (Inr b, w') \<longleftrightarrow> (\<exists>a w1. m w = (Inr a, w1) \<and> f a w1 = (Inr b, w'))"
  by (cases "m w") (auto simp: and_then_def split: sum.splits)

lemma lift_Inr: "lift r w = (Inr a, w') \<longleftrightarrow> r = Inr a \<and> w' = w"
  by (auto simp: lift_def)

lemma returns_Inr: "returns a w = (Inr b, w') \<longleftrightarrow> b = a \<and> w' = w"
  by (auto simp: returns_def)

lemma try_except_reraise_Inr:
  assumes "\<And>e w. isl (fst (h e w))"
  shows "try_except m h w = (Inr a, w') \<longleftrightarrow> m w = (Inr a, w')"
proof (cases "m w")
  case (Pair r w1)
  show ?thesis
  proof (cases r)
    case (Inl e)
    with Pair assms[of e w1] show ?thesis
      by (cases "h e w1") (auto simp: try_except_def)
  next
    case (Inr b)
    with Pair show ?thesis by (simp add: try_except_def)
  qed
qed

lemma for_each_invariant:
  assumes step: "\<And>x acc w acc' w'. I acc \<Longrightarrow> body x acc w = (Inr acc', w') \<Longrightarrow> I acc'"
    and "I acc" and "for_each xs body acc w = (Inr acc', w')"
  shows "I acc'"
  using assms(2,3)
proof (induction xs arbitrary: acc w)
  case Nil
  then show ?case by (simp add: returns_Inr)
next
  case (Cons x xs)
  from Cons.prems(2) obtain a w1 where b: "body x acc w = (Inr a, w1)"
    and rest: "for_each xs body a w1 = (Inr acc', w')"
    by (auto simp: and_then_Inr)
  from step[OF Cons.prems(1) b] rest show ?case by (rule Cons.IH)
qed

section \<open>Normalisation of a task\<close>

lemma task_status_Unknown:
  assumes "map_of kvs ''status'' = None \<or>
       (\<exists>st. map_of kvs ''status'' = Some (JDict st) \<and> map_of st ''status'' = None)"
  shows "task_status (JDict kvs) = Inr (JStr ''Unknown'')"
  using assms by (auto simp: task_status_def on_value_def)

lemma task_priority_Not_set:
  assumes "\<not> (\<exists>p v. map_of kvs ''priority'' = Some (JDict p) \<and> map_of p ''priority'' = Some v)"
  shows "task_priority (JDict kvs) = Inr (JStr ''Not set'')"
proof (cases "map_of kvs ''priority''")
  case None
  then show ?thesis by (simp add: task_priority_def on_value_def)
next
  case (Some p)
  with assms show ?thesis
    by (cases p) (auto simp: task_priority_def on_value_def split: option.splits)
qed

lemma task_data_fields:
  assumes "task_data sn fn ln task = Inr doc"
  shows "\<exists>kvs title description status priority due created assigned ident url.
           task = JDict kvs \<and>
           task_status task = Inr status \<and> task_priority task = Inr priority \<and>
           map_of kvs ''id'' = Some ident \<and>
           doc = JDict
             [(''title'', title), (''description'', description), (''status'', status),
              (''priority'', priority), (''due_date'', due), (''created_date'', created),
              (''assigned_to'', assigned), (''task_id'', ident), (''list_name'', ln),
              (''folder_name'', fn), (''space_name'', sn), (''url'', url)]"
  using assms
  by (auto simp: task_data_def on_value_Inr py_get_Inr py_item_Inr)

text \<open>
  Claim C2 says that the fields of a task with an identifier never raise, whatever
  their type, a \<open>status\<close> that is a plain string included. The entry for the priority
  tests \<^verbatim>\<open>isinstance(..., dict)\<close> first; the entry for the status does not, and
  \<^verbatim>\<open>.get\<close> on a string raises \<open>AttributeError\<close>. The same holds for a \<open>status\<close> that is
  null.
\<close>

theorem task_data_raises_on_text_status:
  "task_data (JStr ''Eng'') (JStr ''Backend'') (JStr ''Sprint 1'')
     (JDict [(''id'', JStr ''t3''), (''name'', JStr ''Fix login''), (''status'', JStr ''open'')])
     = Inl AttributeError \<and>
   task_data (JStr ''Eng'') (JStr ''Backend'') (JStr ''Sprint 1'')
     (JDict [(''id'', JStr ''t3''), (''name'', JStr ''Fix login''), (''status'', JNull)])
     = Inl AttributeError \<and>
   task_priority
     (JDict [(''id'', JStr ''t3''), (''name'', JStr ''Fix login''), (''priority'', JStr ''high'')])
     = Inr (JStr ''Not set'')"
  by (simp add: task_data_def task_status_def task_priority_def on_value_def)

text \<open>
  Claim C4. For a task without a \<open>status\<close> entry, or whose \<open>status\<close> object has no
  \<open>status\<close> entry of its own, the status of the task is the string \<open>Unknown\<close>, and so
  is the \<open>status\<close> field of every record made of the task.
\<close>

theorem missing_status_is_Unknown:
  assumes "map_of kvs ''status'' = None \<or>
       (\<exists>st. map_of kvs ''status'' = Some (JDict st) \<and> map_of st ''status'' = None)"
  shows "task_status (JDict kvs) = Inr (JStr ''Unknown'') \<and>
         (\<forall>doc. task_data sn fn ln (JDict kvs) = Inr doc \<longrightarrow>
            py_item doc ''status'' = Inr (JStr ''Unknown''))"
proof (intro conjI allI impI)
  show st: "task_status (JDict kvs) = Inr (JStr ''Unknown'')"
    using assms by (rule task_status_Unknown)
  fix doc assume "task_data sn fn ln (JDict kvs) = Inr doc"
  from task_data_fields[OF this] st
  show "py_item doc ''status'' = Inr (JStr ''Unknown'')" by auto
qed

theorem missing_status_is_Unknown_witness:
  "map_of [(''id'', JStr ''t1''), (''name'', JStr ''Fix login'')] ''status'' = None \<and>
   task_status task_A = Inr (JStr ''Unknown'') \<and>
   task_data (JStr ''Eng'') (JStr ''Backend'') (JStr ''Sprint 1'') task_A = Inr record_A \<and>
   py_item record_A ''status'' = Inr (JStr ''Unknown'')"
proof -
  have absent: "map_of [(''id'', JStr ''t1''), (''name'', JStr ''Fix login'')] ''status'' = None"
    by simp
  have made: "task_data (JStr ''Eng'') (JStr ''Backend'') (JStr ''Sprint 1'') task_A = Inr record_A"
    by (simp add: task_A_def record_A_def task_data_def task_status_def task_priority_def
          on_value_def)
  from missing_status_is_Unknown[OF disjI1[OF absent],
      of "JStr ''Eng''" "JStr ''Backend''" "JStr ''Sprint 1''"] made absent
  show ?thesis by (simp add: task_A_def)
qed

text \<open>
  Claim C5. For a task whose \<open>priority\<close> entry is missing, is not a \<open>dict\<close> (a plain
  string, null, a number, a list), or is a \<open>dict\<close> without a \<open>priority\<close> entry of its
  own, the priority of the task is the string \<open>Not set\<close>, and so is the \<open>priority\<close>
  field of every record made of the task.
\<close>

theorem unstructured_priority_is_Not_set:
  assumes "\<not> (\<exists>p v. map_of kvs ''priority'' = Some (JDict p) \<and> map_of p ''priority'' = Some v)"
  shows "task_priority (JDict kvs) = Inr (JStr ''Not set'') \<and>
         (\<forall>doc. task_data sn fn ln (JDict kvs) = Inr doc \<longrightarrow>
            py_item doc ''priority'' = Inr (JStr ''Not set''))"
proof (intro conjI allI impI)
  show pr: "task_priority (JDict kvs) = Inr (JStr ''Not set'')"
    using assms by (rule task_priority_Not_set)
  fix doc assume "task_data sn fn ln (JDict kvs) = Inr doc"
  from task_data_fields[OF this] pr
  show "py_item doc ''priority'' = Inr (JStr ''Not set'')" by auto
qed

theorem unstructured_priority_is_Not_set_witness:
  "map_of [(''id'', JStr ''t2''), (''name'', JStr ''Add logging''),
           (''status'', JDict [(''status'', JStr ''In Progress'')]),
           (''priority'', JStr ''high'')] ''priority'' = Some (JStr ''high'') \<and>
   task_priority task_B = Inr (JStr ''Not set'') \<and>
   task_data (JStr ''Eng'') (JStr ''Backend'') (JStr ''Sprint 1'') task_B = Inr record_B \<and>
   py_item record_B ''priority'' = Inr (JStr ''Not set'')"
proof -
  let ?kvs = "[(''id'', JStr ''t2''), (''name'', JStr ''Add logging''),
               (''status'', JDict [(''status'', JStr ''In Progress'')]),
               (''priority'', JStr ''high'')]"
  have plain: "map_of ?kvs ''priority'' = Some (JStr ''high'')"
    by simp
  then have unstructured:
    "\<not> (\<exists>p v. map_of ?kvs ''priority'' = Some (JDict p) \<and> map_of p ''priority'' = Some v)"
    by simp
  have made: "task_data (JStr ''Eng'') (JStr ''Backend'') (JStr ''Sprint 1'') task_B = Inr record_B"
    by (simp add: task_B_def record_B_def task_data_def task_status_def task_priority_def
          on_value_def)
  from unstructured_priority_is_Not_set[OF unstructured,
      of "JStr ''Eng''" "JStr ''Backend''" "JStr ''Sprint 1''"] made plain
  show ?thesis by (simp add: task_B_def)
qed

section \<open>The walk stops at the first failure\<close>

lemma fail_fast_returns: "fail_fast (returns a)"
  by (simp add: fail_fast_def run_ok_def returns_def)

lemma fail_fast_raises: "fail_fast (raises e)"
  by (simp add: fail_fast_def run_ok_def raises_def)

lemma fail_fast_lift: "fail_fast (lift r)"
  by (simp add: fail_fast_def run_ok_def lift_def)

lemma fail_fast_log_line: "fail_fast (log_line lv msg)"
  by (simp add: fail_fast_def run_ok_def log_line_def)

lemma fail_fast_call_http: "fail_fast (call_http env url)"
  by (auto simp: fail_fast_def run_ok_def call_http_def split: prod.splits)

lemma fail_fast_and_then:
  assumes "fail_fast m" and "\<And>a. fail_fast (f a)"
  shows "fail_fast (and_then m f)"
  unfolding fail_fast_def
proof
  fix w
  obtain r w1 where m: "m w = (r, w1)" by (cases "m w")
  from assms(1) have ok1: "run_ok w (m w)" by (simp add: fail_fast_def)
  show "run_ok w (and_then m f w)"
  proof (cases r)
    case (Inl e)
    with m ok1 show ?thesis by (simp add: and_then_def run_ok_def)
  next
    case (Inr a)
    from assms(2)[of a] have ok2: "run_ok w1 (f a w1)" by (simp add: fail_fast_def)
    from Inr m have eq: "and_then m f w = f a w1" by (simp add: and_then_def)
    from ok1 m Inr ok2 show ?thesis
      unfolding eq run_ok_def by auto
  qed
qed

lemma fail_fast_try_except:
  assumes "fail_fast m" and "\<And>e. reraises (h e)"
  shows "fail_fast (try_except m h)"
  unfolding fail_fast_def
proof
  fix w
  obtain r w1 where m: "m w = (r, w1)" by (cases "m w")
  from assms(1) have ok1: "run_ok w (m w)" by (simp add: fail_fast_def)
  show "run_ok w (try_except m h w)"
  proof (cases r)
    case (Inl e)
    from assms(2)[of e] have "isl (fst (h e w1))" "requests (snd (h e w1)) = requests w1"
      "document (snd (h e w1)) = document w1" "chats (snd (h e w1)) = chats w1"
      by (simp_all add: reraises_def)
    with Inl m ok1 show ?thesis by (simp add: try_except_def run_ok_def)
  next
    case (Inr a)
    with m ok1 show ?thesis by (simp add: try_except_def)
  qed
qed

lemma fail_fast_for_each:
  assumes "\<And>x acc. fail_fast (body x acc)"
  shows "fail_fast (for_each xs body acc)"
proof (induction xs arbitrary: acc)
  case Nil
  show ?case by (simp add: fail_fast_returns)
next
  case (Cons x xs)
  show ?case by (simp add: fail_fast_and_then assms Cons.IH)
qed

lemma reraises_raises: "reraises (raises e)"
  by (simp add: reraises_def raises_def)

lemma reraises_log_raise: "reraises (and_then (log_line lv msg) (\<lambda>_. raises e))"
  by (simp add: reraises_def raises_def and_then_def log_line_def)

lemma fail_fast_make_request: "fail_fast (make_request env endpoint)"
  unfolding make_request_def Let_def
  by (intro fail_fast_try_except fail_fast_and_then fail_fast_log_line fail_fast_call_http)
     (simp add: reraises_raises reraises_log_raise)

lemma fail_fast_task_body: "fail_fast (task_body sn fn ln task documents)"
  unfolding task_body_def
  by (intro fail_fast_and_then fail_fast_lift fail_fast_returns)

lemma fail_fast_list_body: "fail_fast (list_body env sn fn list_obj documents)"
  unfolding list_body_def
  by (intro fail_fast_and_then fail_fast_lift fail_fast_make_request fail_fast_for_each
        fail_fast_task_body)

lemma fail_fast_folder_body: "fail_fast (folder_body env sn folder documents)"
  unfolding folder_body_def
  by (intro fail_fast_and_then fail_fast_lift fail_fast_make_request fail_fast_for_each
        fail_fast_list_body)

lemma fail_fast_space_body: "fail_fast (space_body env space documents)"
  unfolding space_body_def
  by (intro fail_fast_and_then fail_fast_lift fail_fast_make_request fail_fast_for_each
        fail_fast_folder_body)

lemma fail_fast_fetch_clickup_tasks: "fail_fast (fetch_clickup_tasks env)"
  unfolding fetch_clickup_tasks_def
  by (intro fail_fast_try_except fail_fast_and_then fail_fast_lift fail_fast_make_request
        fail_fast_for_each fail_fast_space_body reraises_log_raise)

text \<open>
  Claim C1. If any of the requests that \<^verbatim>\<open>fetch_clickup_tasks\<close> makes (for the spaces, the
  folders, the lists or the tasks) fails, the walk raises and so returns no list of
  records, not even a partial one; \<^verbatim>\<open>ingest\<close> then raises an \<open>HTTPException\<close> with
  status 500 and leaves the stored file exactly as it was, since \<^verbatim>\<open>save_to_json\<close> runs
  only after a walk that has returned.
\<close>

theorem failed_fetch_aborts_ingestion:
  assumes fails: "\<exists>url e. (url, Inl e) \<in> set (requests_made w (snd (fetch_clickup_tasks env w)))"
  shows "isl (fst (fetch_clickup_tasks env w)) \<and>
         (\<exists>detail. fst (ingest env w) = Inl (HTTPException 500 detail)) \<and>
         document (snd (ingest env w)) = document w"
proof -
  obtain r w' where run: "fetch_clickup_tasks env w = (r, w')"
    by (cases "fetch_clickup_tasks env w")
  have "run_ok w (fetch_clickup_tasks env w)"
    using fail_fast_fetch_clickup_tasks[of env] by (simp add: fail_fast_def)
  with run obtain new where doc: "document w' = document w"
    and new: "requests w' = requests w @ new"
    and ok: "isl r \<or> list_all (\<lambda>x. \<not> isl (snd x)) new"
    by (auto simp: run_ok_def)
  from fails run new obtain url e where "(url, Inl e) \<in> set new"
    by (auto simp: requests_made_def)
  with ok have r: "isl r" by (auto simp: list_all_iff)
  then obtain e' where e': "r = Inl e'" by (cases r) auto
  from run e' have "ingest env w = (Inl (HTTPException 500 (exc_str env e')), w')"
    by (simp add: ingest_def try_except_def and_then_def raises_def)
  with run r doc show ?thesis by simp
qed

theorem failed_fetch_aborts_ingestion_witness:
  "(''https://api.clickup.com/api/v2/folder/f1/list'', Inl (RequestException ''503 Server Error''))
     \<in> set (requests_made (start 2 (Contents ''[]''))
              (snd (fetch_clickup_tasks scenario_env (start 2 (Contents ''[]''))))) \<and>
   isl (fst (fetch_clickup_tasks scenario_env (start 2 (Contents ''[]'')))) \<and>
   (\<exists>detail. fst (ingest scenario_env (start 2 (Contents ''[]''))) = Inl (HTTPException 500 detail)) \<and>
   document (snd (ingest scenario_env (start 2 (Contents ''[]'')))) = Contents ''[]''"
proof -
  have failed:
    "(''https://api.clickup.com/api/v2/folder/f1/list'', Inl (RequestException ''503 Server Error''))
       \<in> set (requests_made (start 2 (Contents ''[]''))
                (snd (fetch_clickup_tasks scenario_env (start 2 (Contents ''[]'')))))"
    by code_simp
  then have "\<exists>url e. (url, Inl e)
       \<in> set (requests_made (start 2 (Contents ''[]''))
                (snd (fetch_clickup_tasks scenario_env (start 2 (Contents ''[]'')))))"
    by blast
  from failed_fetch_aborts_ingestion[OF this] failed show ?thesis
    by (simp add: start_def)
qed

section \<open>The records of a walk\<close>

lemma task_body_fields:
  assumes "list_all has_all_fields docs" and "task_body sn fn ln task docs w = (Inr docs', w')"
  shows "list_all has_all_fields docs'"
proof -
  from assms(2) obtain d where d: "task_data sn fn ln task = Inr d" and docs': "docs' = docs @ [d]"
    by (auto simp: task_body_def and_then_Inr lift_Inr returns_Inr)
  from task_data_fields[OF d] have "has_all_fields d" by (auto simp: field_names_def)
  with assms(1) docs' show ?thesis by simp
qed

lemma list_body_fields:
  assumes "list_all has_all_fields docs" and "list_body env sn fn l docs w = (Inr docs', w')"
  shows "list_all has_all_fields docs'"
proof -
  from assms(2) obtain ln items w1
    where "for_each items (task_body sn fn ln) docs w1 = (Inr docs', w')"
    by (auto simp: list_body_def and_then_Inr)
  with assms(1) show ?thesis
    by (rule for_each_invariant[where I = "list_all has_all_fields", rotated 1])
       (rule task_body_fields)
qed

lemma folder_body_fields:
  assumes "list_all has_all_fields docs" and "folder_body env sn f docs w = (Inr docs', w')"
  shows "list_all has_all_fields docs'"
proof -
  from assms(2) obtain fn items w1
    where "for_each items (list_body env sn fn) docs w1 = (Inr docs', w')"
    by (auto simp: folder_body_def and_then_Inr)
  with assms(1) show ?thesis
    by (rule for_each_invariant[where I = "list_all has_all_fields", rotated 1])
       (rule list_body_fields)
qed

lemma space_body_fields:
  assumes "list_all has_all_fields docs" and "space_body env s docs w = (Inr docs', w')"
  shows "list_all has_all_fields docs'"
proof -
  from assms(2) obtain sn items w1
    where "for_each items (folder_body env sn) docs w1 = (Inr docs', w')"
    by (auto simp: space_body_def and_then_Inr)
  with assms(1) show ?thesis
    by (rule for_each_invariant[where I = "list_all has_all_fields", rotated 1])
       (rule folder_body_fields)
qed

lemma fetch_clickup_tasks_fields:
  assumes "fetch_clickup_tasks env w = (Inr docs, w')"
  shows "list_all has_all_fields docs"
proof -
  have h: "isl (fst (and_then (log_line ERROR msg) (\<lambda>_. raises e) w0))" for msg e and w0 :: "'a world"
    by (simp add: and_then_def log_line_def raises_def)
  from assms obtain items w1 where "for_each items (space_body env) [] w1 = (Inr docs, w')"
    unfolding fetch_clickup_tasks_def
    by (subst (asm) try_except_reraise_Inr) (auto simp: h and_then_Inr)
  then show ?thesis
    by (rule for_each_invariant[where I = "list_all has_all_fields", rotated 2])
       (erule (1) space_body_fields, simp)
qed

lemma task_text_total:
  assumes "has_all_fields d"
  shows "\<exists>text. task_text env d = Inr text"
proof -
  from assms obtain kvs where d: "d = JDict kvs" and k: "map fst kvs = field_names"
    by (cases d) auto
  have "\<exists>v. py_item d k = Inr v" if "k \<in> set field_names" for k
  proof -
    from that k have "k \<in> fst ` set kvs" by (metis list.set_map)
    then obtain v where "map_of kvs k = Some v"
      by (cases "map_of kvs k") (auto simp: map_of_eq_None_iff)
    with d show ?thesis by simp
  qed
  then obtain a b c e f g h where "py_item d ''title'' = Inr a" "py_item d ''description'' = Inr b"
    "py_item d ''status'' = Inr c" "py_item d ''priority'' = Inr e" "py_item d ''due_date'' = Inr f"
    "py_item d ''created_date'' = Inr g" "py_item d ''assigned_to'' = Inr h"
    unfolding field_names_def by (metis list.set_intros)
  then show ?thesis by (simp add: task_text_def on_value_def)
qed

text \<open>
  Claim C9. Every record of a walk that has returned is a \<open>dict\<close> of exactly the twelve
  fields, and \<^verbatim>\<open>task_text\<close>, which reads seven of them by subscript, returns a text for
  it and raises no \<open>KeyError\<close> (under any \<^verbatim>\<open>str\<close> of the values).
\<close>

theorem fetched_records_have_all_fields:
  assumes "fetch_clickup_tasks env w = (Inr documents, w')" and "d \<in> set documents"
  shows "has_all_fields d \<and> (\<exists>text. task_text env' d = Inr text)"
proof -
  from fetch_clickup_tasks_fields[OF assms(1)] assms(2) have "has_all_fields d"
    by (simp add: list_all_iff)
  then show ?thesis by (simp add: task_text_total)
qed

theorem fetched_records_have_all_fields_witness:
  "fst (fetch_clickup_tasks scenario_env (start 4 Absent)) = Inr [record_A, record_B] \<and>
   record_B \<in> set [record_A, record_B] \<and>
   has_all_fields record_B \<and>
   (\<exists>text. task_text scenario_env record_B = Inr text)"
proof -
  have walk: "fst (fetch_clickup_tasks scenario_env (start 4 Absent)) = Inr [record_A, record_B]"
    by code_simp
  then have run: "fetch_clickup_tasks scenario_env (start 4 Absent) =
      (Inr [record_A, record_B], snd (fetch_clickup_tasks scenario_env (start 4 Absent)))"
    by (simp add: prod_eq_iff)
  have "record_B \<in> set [record_A, record_B]" by simp
  from fetched_records_have_all_fields[OF run this, of scenario_env] walk
  show ?thesis by simp
qed

section \<open>The record store\<close>

lemma save_to_json_Inr:
  "save_to_json env docs w = (Inr u, w') \<longleftrightarrow>
     document w \<noteq> Inaccessible \<and>
     w' = w\<lparr>document := Contents (json_dump env (JDict [(''tasks'', JList docs)]) 2)\<rparr>"
  by (cases "document w")
     (auto simp: save_to_json_def try_except_def write_document_def and_then_def log_line_def
        raises_def)

lemma load_from_json_total:
  "\<exists>tasks w'. load_from_json env w = (Inr tasks, w') \<and> chats w' = chats w \<and>
      document w' = document w \<and> requests w' = requests w \<and> remote w' = remote w"
  by (cases "document w"; cases "json_load env (case document w of Contents t \<Rightarrow> t)")
     (auto simp: load_from_json_def try_except_def and_then_def read_document_def lift_def
        returns_def log_line_def split: sum.splits prod.splits)

text \<open>
  Claim C3. For every list \<open>R\<close> of records whose document the JSON library writes and
  reads back unchanged, \<^verbatim>\<open>load_from_json\<close> after a \<^verbatim>\<open>save_to_json\<close> of \<open>R\<close> that has
  returned gives exactly \<open>R\<close>, in the same order, and changes nothing.
\<close>

theorem load_after_save:
  assumes codec: "json_load env (json_dump env (JDict [(''tasks'', JList R)]) 2)
                    = Inr (JDict [(''tasks'', JList R)])"
    and saved: "save_to_json env R w = (Inr (), w1)"
  shows "load_from_json env w1 = (Inr (JList R), w1)"
proof -
  from saved have "document w1 = Contents (json_dump env (JDict [(''tasks'', JList R)]) 2)"
    by (auto simp: save_to_json_Inr)
  with codec show ?thesis
    by (simp add: load_from_json_def try_except_def and_then_def read_document_def lift_def)
qed

theorem load_after_save_witness:
  "save_to_json scenario_env [record_A, record_B] (start 0 Absent) = (Inr (), stored) \<and>
   load_from_json scenario_env stored = (Inr (JList [record_A, record_B]), stored)"
proof -
  have codec:
    "json_load scenario_env
       (json_dump scenario_env (JDict [(''tasks'', JList [record_A, record_B])]) 2)
     = Inr (JDict [(''tasks'', JList [record_A, record_B])])"
    by code_simp
  have saved: "save_to_json scenario_env [record_A, record_B] (start 0 Absent) = (Inr (), stored)"
    by (simp add: save_to_json_def try_except_def write_document_def start_def stored_def
          scenario_env_def)
  from load_after_save[OF codec saved] saved show ?thesis by simp
qed

text \<open>
  Claim C6. If the stored file does not exist, or exists with a text that the JSON
  library cannot parse, \<^verbatim>\<open>load_from_json\<close> returns the empty list; it returns, so it
  raises nothing.
\<close>

theorem load_without_document_is_empty:
  assumes "document w = Absent \<or>
           (\<exists>text e. document w = Contents text \<and> json_load env text = Inl e)"
  shows "fst (load_from_json env w) = Inr (JList [])"
  using assms
  by (auto simp: load_from_json_def try_except_def and_then_def read_document_def lift_def
        returns_def log_line_def)

theorem load_without_document_is_empty_witness:
  "fst (load_from_json scenario_env (start 0 Absent)) = Inr (JList []) \<and>
   json_load scenario_env ''{ tasks: [1, 2'' = Inl JSONDecodeError \<and>
   fst (load_from_json scenario_env (start 0 (Contents ''{ tasks: [1, 2''))) = Inr (JList [])"
proof -
  have absent: "document (start 0 Absent) = Absent"
    by (simp add: start_def)
  have broken: "json_load scenario_env ''{ tasks: [1, 2'' = Inl JSONDecodeError"
    by code_simp
  then have unparsable:
    "\<exists>text e. document (start 0 (Contents ''{ tasks: [1, 2'')) = Contents text \<and>
       json_load scenario_env text = Inl e"
    by (simp add: start_def)
  from load_without_document_is_empty[OF disjI1[OF absent], of scenario_env]
    load_without_document_is_empty[OF disjI2[OF unparsable]] broken
  show ?thesis by simp
qed

section \<open>Matching and answering\<close>

lemma starts_with_prefix: "starts_with s q = prefix q s"
  by (induction s q rule: starts_with.induct) auto

lemma str_in_sublist: "str_in q s = sublist q s"
  by (induction s) (simp_all add: starts_with_prefix sublist_Cons_right)

lemma set_parts: "set (parts s) = {u. sublist u s}"
  by (auto simp: parts_def sublist_altdef')

lemma occurs_ignoring_case_iff:
  "occurs_ignoring_case env q s \<longleftrightarrow> (\<exists>u. sublist u s \<and> lower env u = lower env q)"
  by (auto simp: occurs_ignoring_case_def list_ex_iff set_parts)

lemma lowered_text:
  assumes "py_get t k (JStr []) = Inr v" and "nullable_text_field t k"
  shows "py_lower env (py_or v (JStr [])) = Inr (lower env (field_text t k))"
proof -
  from assms(1) obtain kvs where t: "t = JDict kvs" by (cases t) auto
  show ?thesis
  proof (cases "map_of kvs k")
    case None
    with assms t show ?thesis
      by (auto simp: field_text_def py_or_def)
  next
    case (Some x)
    with assms t have "text_or_null x" "v = x" by (auto simp: nullable_text_field_def)
    with Some t show ?thesis
      by (cases x) (auto simp: field_text_def py_or_def lower_def)
  qed
qed





text \<open>
  Where \<^verbatim>\<open>str.lower\<close> works letter by letter, as it does on ASCII text, the two
  notions of matching are the same.
\<close>

lemma matches_lowered_letter_by_letter:
  assumes "\<And>s. lower env s = map f s"
  shows "matches_lowered env q t = matches_spec env q t"
proof -
  have "sublist (map f q) (map f s) \<longleftrightarrow> (\<exists>u. sublist u s \<and> map f u = map f q)" for s
  proof
    assume "sublist (map f q) (map f s)"
    then obtain ps ss where "map f s = ps @ map f q @ ss"
      by (auto simp: sublist_def)
    then obtain a b c where "s = a @ b @ c" "map f b = map f q"
      by (auto simp: map_eq_append_conv append_eq_map_conv)
    then show "\<exists>u. sublist u s \<and> map f u = map f q"
      by (auto simp: sublist_def)
  next
    assume "\<exists>u. sublist u s \<and> map f u = map f q"
    then obtain u where "sublist u s" "map f u = map f q" by blast
    then show "sublist (map f q) (map f s)"
      by (metis map_mono_sublist)
  qed
  then show ?thesis
    by (simp add: matches_lowered_def matches_spec_def occurs_ignoring_case_iff assms)
qed

lemma for_each_no_match:
  assumes "\<forall>t\<in>set items. task_matches env query t = Inr False"
  shows "for_each items (query_body env query) acc w = (Inr acc, w)"
  using assms
  by (induction items)
     (simp_all add: returns_def query_body_def and_then_def lift_def)

text \<open>
  Claim C8. If the test is false for every stored record, \<^verbatim>\<open>query_knowledge\<close> returns the
  fixed response \<open>No matching tasks found.\<close> and makes no chat call.
\<close>

theorem no_match_skips_the_model:
  assumes "fst (load_from_json env w) = Inr tasks" and "py_iter tasks = Inr items"
    and "\<forall>t\<in>set items. task_matches env (lower env q) t = Inr False"
  shows "fst (query_knowledge env q w) = Inr no_match_response \<and>
         chats (snd (query_knowledge env q w)) = chats w"
proof -
  from load_from_json_total[of env w] assms(1) obtain w1
    where l: "load_from_json env w = (Inr tasks, w1)" and c: "chats w1 = chats w"
    by auto
  have "query_knowledge env q w = (Inr no_match_response, w1)"
    by (simp add: query_knowledge_def and_then_def l lift_def assms(2)
          for_each_no_match[OF assms(3)] returns_def)
  with c show ?thesis by simp
qed

theorem no_match_skips_the_model_witness:
  "fst (load_from_json scenario_env stored) = Inr (JList [record_A, record_B]) \<and>
   task_matches scenario_env (lower scenario_env ''deploy'') record_A = Inr False \<and>
   task_matches scenario_env (lower scenario_env ''deploy'') record_B = Inr False \<and>
   fst (query_knowledge scenario_env ''deploy'' stored) = Inr no_match_response \<and>
   chats (snd (query_knowledge scenario_env ''deploy'' stored)) = []"
proof -
  have loaded: "fst (load_from_json scenario_env stored) = Inr (JList [record_A, record_B])"
    by code_simp
  have items: "py_iter (JList [record_A, record_B]) = Inr [record_A, record_B]"
    by simp
  have a: "task_matches scenario_env (lower scenario_env ''deploy'') record_A = Inr False"
    and b: "task_matches scenario_env (lower scenario_env ''deploy'') record_B = Inr False"
    by code_simp+
  then have "\<forall>t\<in>set [record_A, record_B].
      task_matches scenario_env (lower scenario_env ''deploy'') t = Inr False"
    by simp
  from no_match_skips_the_model[OF loaded items this] loaded a b
  show ?thesis by (simp add: stored_def start_def)
qed

lemma for_each_all_match:
  assumes "\<forall>t\<in>set items. task_matches env query t = Inr True \<and> (\<exists>x. task_text env t = Inr x)"
  shows "\<exists>texts. for_each items (query_body env query) acc w = (Inr (acc @ texts), w) \<and>
           length texts = length items"
  using assms
proof (induction items arbitrary: acc)
  case Nil
  then show ?case by (simp add: returns_def)
next
  case (Cons t items)
  then obtain x where x: "task_text env t = Inr x" and m: "task_matches env query t = Inr True"
    by auto
  from Cons.IH[of "acc @ [x]"] Cons.prems obtain texts
    where "for_each items (query_body env query) (acc @ [x]) w = (Inr (acc @ [x] @ texts), w)"
      and "length texts = length items" by auto
  moreover have "query_body env query t acc w = (Inr (acc @ [x]), w)"
    by (simp add: query_body_def and_then_def lift_def x m returns_def)
  ultimately show ?case
    by (intro exI[of _ "x # texts"]) (simp add: and_then_def)
qed

lemma empty_query_matches:
  assumes "has_all_fields t" and "nullable_text_field t ''title''"
  shows "task_matches env [] t = Inr True"
proof -
  from assms(1) obtain kvs where t: "t = JDict kvs" by (cases t) auto
  then obtain a b where a: "py_get t ''title'' (JStr []) = Inr a"
    and b: "py_get t ''description'' (JStr []) = Inr b" by auto
  have "str_in [] s" for s by (simp add: str_in_sublist)
  then show ?thesis
    unfolding task_matches_def
    by (simp add: a b lowered_text[OF a assms(2)] on_value_def)
qed

text \<open>
  Claim C10. With the empty string as the query and a store that is not empty,
  whose records have the twelve fields and a title that is a string or null, every
  record passes the test, the response of \<^verbatim>\<open>query_knowledge\<close> is not the fixed
  \<open>No matching tasks found.\<close> and exactly one chat call is made.
\<close>

theorem empty_query_reaches_the_model:
  assumes "fst (load_from_json env w) = Inr tasks" and "py_iter tasks = Inr items"
    and "items \<noteq> []"
    and "\<forall>t\<in>set items. has_all_fields t \<and> nullable_text_field t ''title''"
  shows "(\<forall>t\<in>set items. task_matches env (lower env []) t = Inr True) \<and>
         fst (query_knowledge env [] w) \<noteq> Inr no_match_response \<and>
         (\<exists>req. chats (snd (query_knowledge env [] w)) = chats w @ [req])"
proof -
  from load_from_json_total[of env w] assms(1) obtain w1
    where l: "load_from_json env w = (Inr tasks, w1)" and c: "chats w1 = chats w"
    by auto
  have every: "\<forall>t\<in>set items.
      task_matches env (lower env []) t = Inr True \<and> (\<exists>x. task_text env t = Inr x)"
    using assms(4) by (simp add: lower_def empty_query_matches task_text_total)
  from for_each_all_match[OF this, of "[]" w1] obtain texts
    where f: "for_each items (query_body env (lower env [])) [] w1 = (Inr texts, w1)"
      and "length texts = length items" by auto
  with assms(3) have ne: "texts \<noteq> []" by auto
  obtain res r' where o: "ollama_chat env (remote w1) (chat_of texts) = (res, r')"
    by (cases "ollama_chat env (remote w1) (chat_of texts)")
  have "query_knowledge env [] w =
          (case res of Inl e \<Rightarrow> Inl e | Inr response \<Rightarrow> Inr (JDict [(''response'', JDict response)]),
           w1\<lparr>remote := r', chats := chats w1 @ [chat_of texts]\<rparr>)"
    by (cases res)
       (simp_all add: query_knowledge_def and_then_def l lift_def assms(2) f ne call_ollama_def o
          returns_def)
  with c every show ?thesis by (cases res) (simp_all add: no_match_response_def)
qed

theorem empty_query_reaches_the_model_witness:
  "fst (load_from_json scenario_env stored) = Inr (JList [record_A, record_B]) \<and>
   task_matches scenario_env (lower scenario_env []) record_A = Inr True \<and>
   task_matches scenario_env (lower scenario_env []) record_B = Inr True \<and>
   fst (query_knowledge scenario_env [] stored) \<noteq> Inr no_match_response \<and>
   (\<exists>req. chats (snd (query_knowledge scenario_env [] stored)) = chats stored @ [req])"
proof -
  have loaded: "fst (load_from_json scenario_env stored) = Inr (JList [record_A, record_B])"
    by code_simp
  have items: "py_iter (JList [record_A, record_B]) = Inr [record_A, record_B]"
    by simp
  have "has_all_fields record_A" "has_all_fields record_B"
    "nullable_text_field record_A ''title''" "nullable_text_field record_B ''title''"
    by (simp_all add: record_A_def record_B_def field_names_def nullable_text_field_def)
  then have
    "\<forall>t\<in>set [record_A, record_B]. has_all_fields t \<and> nullable_text_field t ''title''"
    by simp
  from empty_query_reaches_the_model[OF loaded items _ this] loaded
  show ?thesis by simp
qed

end
